theory Spec2Isabelle
  imports Complex_Main "HOL-Library.Sublist"
begin

section \<open>Python values and exceptions\<close>

text \<open>
  The exceptions the two modules raise, catch or let through. A subclass that an
  \<open>except\<close> clause catches through its base class is represented by that base class
  (\<open>ConnectTimeout\<close> by \<open>Timeout\<close>, \<open>SSLError\<close> by \<open>ConnectionError\<close>);
  \<open>Exception\<close> carries the message of every exception that no clause of the code names.
\<close>

datatype exn =
    ConnectionError
  | Timeout
  | AttributeError
  | KeyError
  | TypeError
  | IndexError
  | ValueError
  | InvalidETFException string
  | Exception string

text \<open>
  A function that may raise returns \<open>exn + 'a\<close>: \<open>Inl e\<close> is the raised exception.
  \<open>and_then\<close> sequences two computations; the first exception raised wins.
\<close>

definition and_then :: "exn + 'a \<Rightarrow> ('a \<Rightarrow> exn + 'b) \<Rightarrow> exn + 'b" where
  "and_then m f = (case m of Inl e \<Rightarrow> Inl e | Inr x \<Rightarrow> f x)"

fun map_exn :: "('a \<Rightarrow> exn + 'b) \<Rightarrow> 'a list \<Rightarrow> exn + 'b list" where
  "map_exn f [] = Inr []"
| "map_exn f (x # xs) =
     and_then (f x) (\<lambda>y. and_then (map_exn f xs) (\<lambda>ys. Inr (y # ys)))"

text \<open>
  What \<open>json.loads\<close> and \<open>Response.json()\<close> produce: \<open>JNull\<close> is Python's \<open>None\<close>, a
  \<open>JObj\<close> is a dict given by its items (looked up with \<open>map_of\<close>), a \<open>JArr\<close> a list.
\<close>

datatype json =
    JNull
  | JBool bool
  | JNum real
  | JStr string
  | JArr "json list"
  | JObj "(string \<times> json) list"

text \<open>Truth value testing, as \<open>if not etfs\<close> applies it.\<close>

fun truthy :: "json \<Rightarrow> bool" where
  "truthy JNull = False"
| "truthy (JBool b) = b"
| "truthy (JNum r) = (r \<noteq> 0)"
| "truthy (JStr s) = (s \<noteq> [])"
| "truthy (JArr xs) = (xs \<noteq> [])"
| "truthy (JObj kvs) = (kvs \<noteq> [])"

text \<open>\<open>v[key]\<close> with a string key: only a dict can be subscripted by a string.\<close>

fun getitem :: "json \<Rightarrow> string \<Rightarrow> exn + json" where
  "getitem (JObj kvs) k = (case map_of kvs k of None \<Rightarrow> Inl KeyError | Some v \<Rightarrow> Inr v)"
| "getitem v k = Inl TypeError"

text \<open>\<open>v.get(key, default)\<close>: only a dict has the method \<open>get\<close>.\<close>

fun py_get :: "json \<Rightarrow> string \<Rightarrow> json \<Rightarrow> exn + json" where
  "py_get (JObj kvs) k d = Inr (case map_of kvs k of None \<Rightarrow> d | Some v \<Rightarrow> v)"
| "py_get v k d = Inl AttributeError"

text \<open>\<open>s + v\<close> for a string \<open>s\<close>: anything but a string on the right is a \<open>TypeError\<close>.\<close>

fun str_add :: "string \<Rightarrow> json \<Rightarrow> exn + json" where
  "str_add s (JStr t) = Inr (JStr (s @ t))"
| "str_add s v = Inl TypeError"

text \<open>\<open>for x in v\<close>: a list gives its elements, a dict its keys, a string its characters.\<close>

fun py_iter :: "json \<Rightarrow> exn + json list" where
  "py_iter (JArr xs) = Inr xs"
| "py_iter (JObj kvs) = Inr (map (\<lambda>kv. JStr (fst kv)) kvs)"
| "py_iter (JStr s) = Inr (map (\<lambda>c. JStr [c]) s)"
| "py_iter v = Inl TypeError"

section \<open>The catalog scraper (\<open>_etfdb_scraper.py\<close>)\<close>

text \<open>
  \<open>ETFListScraper\<close> inherits from \<open>BaseClient\<close>, which is not part of the two modules:
  its base URL, \<open>_prepare_request_body\<close> and \<open>post_request\<close> are the fields of the
  scraper. \<open>post_request\<close> either raises or returns an object; \<open>None\<close> stands for an object
  without the attribute \<open>json\<close>, and a \<open>Response\<close> holds what its \<open>json()\<close> does.
\<close>

datatype response = Response "exn + json"

datatype post_outcome = PostRaises exn | PostReturns "response option"

record 'b scraper =
  base_url :: string
  prepare_request_body :: "nat \<Rightarrow> nat \<Rightarrow> 'b"
  post_request :: "'b \<Rightarrow> post_outcome"

subsection \<open>\<open>_parse_etf_record\<close>\<close>

text \<open>
  The dict display evaluates its values in order; the result is the dict's items.
\<close>

definition parse_etf_record :: "string \<Rightarrow> json \<Rightarrow> exn + (string \<times> json) list" where
  "parse_etf_record base obj =
     and_then (and_then (py_get obj ''symbol'' (JObj [])) (\<lambda>s. py_get s ''text'' JNull)) (\<lambda>v_symbol.
     and_then (and_then (py_get obj ''name'' (JObj [])) (\<lambda>n. py_get n ''text'' JNull)) (\<lambda>v_name.
     and_then (and_then (and_then (py_get obj ''symbol'' (JObj [])) (\<lambda>s. py_get s ''url'' JNull))
                 (str_add base)) (\<lambda>v_url.
     and_then (py_get obj ''one_week_return'' JNull) (\<lambda>v_week.
     and_then (py_get obj ''ytd'' JNull) (\<lambda>v_one.
     and_then (py_get obj ''three_ytd'' JNull) (\<lambda>v_three.
     and_then (py_get obj ''five_ytd'' JNull) (\<lambda>v_five.
       Inr [(''symbol'', v_symbol),
            (''name'', v_name),
            (''url'', v_url),
            (''one_week_return'', v_week),
            (''one_year_return'', v_one),
            (''three_year_return'', v_three),
            (''five_year_return'', v_five)])))))))"

subsection \<open>\<open>_prepare_etfs_list\<close>\<close>

text \<open>The generator, as \<open>list(...)\<close> consumes it: the records in order, or the first exception.\<close>

definition prepare_etfs_list :: "string \<Rightarrow> json \<Rightarrow> exn + (string \<times> json) list list" where
  "prepare_etfs_list base etfs = and_then (py_iter etfs) (map_exn (parse_etf_record base))"

subsection \<open>\<open>_scrape_page\<close>\<close>

text \<open>The body of the \<open>try\<close>: \<open>self.post_request(request_body).json()["data"]\<close>.\<close>

definition scrape_page_try :: "'b scraper \<Rightarrow> 'b \<Rightarrow> exn + json" where
  "scrape_page_try c request_body =
     (case post_request c request_body of
        PostRaises e \<Rightarrow> Inl e
      | PostReturns None \<Rightarrow> Inl AttributeError
      | PostReturns (Some (Response j)) \<Rightarrow> and_then j (\<lambda>v. getitem v ''data''))"

definition scrape_page :: "'b scraper \<Rightarrow> nat \<Rightarrow> nat \<Rightarrow> exn + json" where
  "scrape_page c page_no page_size =
     (let request_body = prepare_request_body c page_no page_size in
      case scrape_page_try c request_body of
        Inr v \<Rightarrow> Inr v
      | Inl e \<Rightarrow>
          if e = ConnectionError \<or> e = Timeout then Inr (JArr [])
          else if e = AttributeError \<or> e = KeyError then Inr (JArr [])
          else Inl e)"

subsection \<open>\<open>get_etfs\<close>\<close>

text \<open>
  The generator object: where it is suspended, its local \<open>page\<close>, and the pages it has
  asked \<open>_scrape_page\<close> for so far (the requests it has sent, oldest first).
\<close>

datatype gen_pc = NotStarted | AtYield | Finished

record gen_state =
  gen_pc :: gen_pc
  gen_page :: nat
  gen_requests :: "nat list"

datatype 'a gen_result = Yield 'a | StopIteration | Raise exn

definition get_etfs :: gen_state where
  "get_etfs = \<lparr>gen_pc = NotStarted, gen_page = 0, gen_requests = []\<rparr>"

text \<open>One pass through the body of \<open>while True\<close>, up to the \<open>yield\<close>, the \<open>break\<close> or an exception.\<close>

definition get_etfs_body ::
  "'b scraper \<Rightarrow> nat \<Rightarrow> gen_state \<Rightarrow> (string \<times> json) list list gen_result \<times> gen_state" where
  "get_etfs_body c page_size s =
     (let s1 = s\<lparr>gen_requests := gen_requests s @ [gen_page s]\<rparr> in
      case scrape_page c (gen_page s) page_size of
        Inl e \<Rightarrow> (Raise e, s1\<lparr>gen_pc := Finished\<rparr>)
      | Inr etfs \<Rightarrow>
          if \<not> truthy etfs then (StopIteration, s1\<lparr>gen_pc := Finished\<rparr>)
          else (case prepare_etfs_list (base_url c) etfs of
                  Inl e \<Rightarrow> (Raise e, s1\<lparr>gen_pc := Finished\<rparr>)
                | Inr recs \<Rightarrow> (Yield recs, s1\<lparr>gen_pc := AtYield\<rparr>)))"

text \<open>\<open>next(gen)\<close>: start with \<open>page = 1\<close>, or resume after the \<open>yield\<close> with \<open>page += 1\<close>.\<close>

definition get_etfs_next ::
  "'b scraper \<Rightarrow> nat \<Rightarrow> gen_state \<Rightarrow> (string \<times> json) list list gen_result \<times> gen_state" where
  "get_etfs_next c page_size s =
     (case gen_pc s of
        Finished \<Rightarrow> (StopIteration, s)
      | NotStarted \<Rightarrow> get_etfs_body c page_size (s\<lparr>gen_page := 1\<rparr>)
      | AtYield \<Rightarrow> get_etfs_body c page_size (s\<lparr>gen_page := gen_page s + 1\<rparr>))"

text \<open>The results of the first \<open>k\<close> calls of \<open>next\<close>, and the generator after them.\<close>

fun get_etfs_run ::
  "'b scraper \<Rightarrow> nat \<Rightarrow> nat \<Rightarrow> gen_state \<Rightarrow> (string \<times> json) list list gen_result list \<times> gen_state" where
  "get_etfs_run c page_size 0 s = ([], s)"
| "get_etfs_run c page_size (Suc k) s =
     (let (r, s1) = get_etfs_next c page_size s;
          (rs, s2) = get_etfs_run c page_size k s1
      in (r # rs, s2))"

section \<open>Strings\<close>

text \<open>
  \<open>str.upper\<close>, \<open>str.strip\<close> and \<open>str.replace\<close> on strings of ASCII characters: \<open>upper\<close>
  maps \<open>a\<close>..\<open>z\<close> to \<open>A\<close>..\<open>Z\<close> (the code of the letter less 32, which clears one bit),
  \<open>strip\<close> removes the ASCII whitespace of
  \<open>str.isspace\<close> at both ends.
\<close>

fun upper_char :: "char \<Rightarrow> char" where
  "upper_char (Char b0 b1 b2 b3 b4 b5 b6 b7) =
     (let n = (of_char (Char b0 b1 b2 b3 b4 b5 b6 b7) :: nat) in
      if 97 \<le> n \<and> n \<le> 122 then Char b0 b1 b2 b3 b4 False b6 b7
      else Char b0 b1 b2 b3 b4 b5 b6 b7)"

definition upper :: "string \<Rightarrow> string" where
  "upper s = map upper_char s"

definition isspace :: "char \<Rightarrow> bool" where
  "isspace c = (let n = (of_char c :: nat) in (9 \<le> n \<and> n \<le> 13) \<or> (28 \<le> n \<and> n \<le> 32))"

definition strip :: "string \<Rightarrow> string" where
  "strip s = rev (dropWhile isspace (rev (dropWhile isspace s)))"

text \<open>\<open>s.replace(old, new)\<close>: every occurrence of \<open>old\<close>, found from the left, without overlap.\<close>

function replace :: "string \<Rightarrow> string \<Rightarrow> string \<Rightarrow> string" where
  "replace [] old new = (if old = [] then new else [])"
| "replace (c # cs) old new =
     (if old = [] then new @ c # replace cs old new
      else if prefix old (c # cs) then new @ replace (drop (length old) (c # cs)) old new
      else c # replace cs old new)"
  by pat_completeness auto
termination
  by (relation "measure (\<lambda>(s, old, new). length s)") auto

section \<open>The parsed document\<close>

text \<open>
  The tree \<open>bs4\<close> builds: a \<open>Tag\<close> has a name, the values of its \<open>class\<close> attribute (which
  \<open>bs4\<close> keeps as a list), its other attributes and its contents; the \<open>BeautifulSoup\<close>
  object is the root \<open>Tag\<close>.
\<close>

datatype node =
    Tag string "string list" "(string \<times> string) list" "node list"
  | NavigableString string

fun tag_attrs :: "node \<Rightarrow> (string \<times> string) list" where
  "tag_attrs (Tag n cl as cs) = as"
| "tag_attrs (NavigableString s) = []"

text \<open>All nodes below a node, in document order.\<close>

fun descendants :: "node \<Rightarrow> node list" where
  "descendants (NavigableString s) = []"
| "descendants (Tag n cl as cs) = concat (map (\<lambda>c. c # descendants c) cs)"

text \<open>\<open>.text\<close>: the strings below a node, concatenated.\<close>

fun get_text :: "node \<Rightarrow> string" where
  "get_text (NavigableString s) = s"
| "get_text (Tag n cl as cs) = concat (map get_text cs)"

text \<open>
  What an attribute is compared with: a string, or the pattern \<open>re.compile("h4 center*")\<close>,
  whose \<open>search\<close> succeeds exactly on the strings that contain \<open>h4 cente\<close>.
\<close>

datatype matcher = Str string | Contains string

fun matches_value :: "matcher \<Rightarrow> string \<Rightarrow> bool" where
  "matches_value (Str t) v = (v = t)"
| "matches_value (Contains t) v = sublist t v"

fun join :: "string list \<Rightarrow> string" where
  "join [] = []"
| "join [x] = x"
| "join (x # y # ys) = x @ '' '' @ join (y # ys)"

text \<open>
  One entry of the \<open>attrs\<close> filter against a tag: \<open>class\<close> matches when one of the tag's
  classes does, or the classes joined by spaces do; any other attribute must be there and match.
\<close>

fun attr_matches :: "node \<Rightarrow> string \<times> matcher \<Rightarrow> bool" where
  "attr_matches (Tag n cl as cs) (k, m) =
     (if k = ''class'' then (\<exists>c \<in> set cl. matches_value m c) \<or> matches_value m (join cl)
      else (case map_of as k of None \<Rightarrow> False | Some v \<Rightarrow> matches_value m v))"
| "attr_matches (NavigableString s) (k, m) = False"

fun tag_matches :: "string \<Rightarrow> (string \<times> matcher) list \<Rightarrow> node \<Rightarrow> bool" where
  "tag_matches name attrs (Tag n cl as cs) = (n = name \<and> (\<forall>a \<in> set attrs. attr_matches (Tag n cl as cs) a))"
| "tag_matches name attrs (NavigableString s) = False"

definition find_all :: "node \<Rightarrow> string \<Rightarrow> (string \<times> matcher) list \<Rightarrow> node list" where
  "find_all t name attrs = filter (tag_matches name attrs) (descendants t)"

definition find_tag :: "node \<Rightarrow> string \<Rightarrow> (string \<times> matcher) list \<Rightarrow> node option" where
  "find_tag t name attrs = (case find_all t name attrs of [] \<Rightarrow> None | x # xs \<Rightarrow> Some x)"

text \<open>
  \<open>select(":nth-child(k)")\<close>: the tags below a node that are the \<open>k\<close>-th tag among the
  children of their parent, in document order; \<open>select_one\<close> is the first of them.
\<close>

fun nth_children_from :: "nat \<Rightarrow> nat \<Rightarrow> node list \<Rightarrow> node list" where
  "nth_children_from k i [] = []"
| "nth_children_from k i (NavigableString s # cs) = nth_children_from k i cs"
| "nth_children_from k i (Tag n cl as ds # cs) =
     (if i = k then [Tag n cl as ds] else []) @ nth_children_from k 1 ds
       @ nth_children_from k (Suc i) cs"

fun select_nth_child :: "node \<Rightarrow> nat \<Rightarrow> node list" where
  "select_nth_child (Tag n cl as cs) k = nth_children_from k 1 cs"
| "select_nth_child (NavigableString s) k = []"

definition select_one :: "node \<Rightarrow> nat \<Rightarrow> node option" where
  "select_one t k = (case select_nth_child t k of [] \<Rightarrow> None | x # xs \<Rightarrow> Some x)"

text \<open>\<open>xs[i]\<close> for a list.\<close>

definition nth_item :: "'a list \<Rightarrow> nat \<Rightarrow> exn + 'a" where
  "nth_item xs i = (if i < length xs then Inr (xs ! i) else Inl IndexError)"

section \<open>The per-ticker client (\<open>_etfdb_client.py\<close>)\<close>

text \<open>
  The values of a section record: a string, or a nested dict. A dict with string keys is a
  map; \<open>d1 ++ d2\<close> is \<open>d1.update(d2)\<close>.
\<close>

datatype pyval = VStr string | VDict "string \<Rightarrow> pyval option"

type_synonym pydict = "string \<Rightarrow> pyval option"

text \<open>
  The helpers of \<open>pyetf.utils\<close> are not part of the two modules; the extractors take them as
  the fields of \<open>utils\<close>. The third argument of \<open>handle_tbody_thead\<close> is its keyword \<open>tag\<close>,
  \<open>None\<close> when the call leaves it out.
\<close>

record utils =
  handle_spans :: "node list \<Rightarrow> exn + (string \<times> pyval) option"
  handle_find_all_rows :: "node list \<Rightarrow> exn + pydict"
  chunkify :: "string list \<Rightarrow> nat \<Rightarrow> string list list"
  handle_tbody_thead :: "node \<Rightarrow> string \<Rightarrow> string option \<Rightarrow> exn + pydict"
  handle_nth_child :: "node \<Rightarrow> nat \<Rightarrow> exn + string"

subsection \<open>\<open>get_available_etfs_list\<close> and \<open>ETFDBClient.__init__\<close>\<close>

text \<open>\<open>data\<close> is what \<open>_load_available_etfs\<close> read from the catalog file.\<close>

definition get_available_etfs_list :: "json \<Rightarrow> exn + json list" where
  "get_available_etfs_list data =
     and_then (py_iter data) (map_exn (\<lambda>etf. getitem etf ''symbol''))"

text \<open>
  The transport: \<open>session.get(url)\<close> raises or returns a response, of which the client reads
  the status code, the reason and the text, here already parsed by \<open>bs4\<close>.
\<close>

record http_response =
  status_code :: int
  reason :: string
  parsed_text :: node

record etfdb_client =
  self_base_url :: string
  self_ticker :: string
  self_ticker_url :: string
  self_soup :: node

text \<open>The \<open>if\<close> of \<open>__init__\<close>: the ticker and its URL, or \<open>InvalidETFException\<close>.\<close>

definition resolve_ticker :: "string \<Rightarrow> json list \<Rightarrow> string \<Rightarrow> exn + string \<times> string" where
  "resolve_ticker base available ticker =
     (if JStr (upper ticker) \<in> set available
      then Inr (upper ticker, base @ ''/etf/'' @ upper ticker)
      else Inl (InvalidETFException (ticker @ '' doesn't exist in ETF Database'')))"

definition prepare_url :: "string \<Rightarrow> string \<Rightarrow> string" where
  "prepare_url base ticker = base @ ''/etf/'' @ ticker @ ''/''"

text \<open>
  \<open>_make_soup_request\<close>; the message of its exception is
  \<open>response {status_code}: {reason}\<close>, kept here as the reason.
\<close>

definition make_soup_request ::
  "(string \<Rightarrow> exn + http_response) \<Rightarrow> string \<Rightarrow> string \<Rightarrow> exn + node" where
  "make_soup_request session_get base ticker =
     and_then (session_get (prepare_url base ticker)) (\<lambda>response.
       if status_code response \<noteq> 200 then Inl (Exception (reason response))
       else Inr (parsed_text response))"

definition init ::
  "string \<Rightarrow> json \<Rightarrow> (string \<Rightarrow> exn + http_response) \<Rightarrow> string \<Rightarrow> exn + etfdb_client" where
  "init base data session_get ticker =
     and_then (get_available_etfs_list data) (\<lambda>available.
     and_then (resolve_ticker base available ticker) (\<lambda>(t, url).
     and_then (make_soup_request session_get base t) (\<lambda>soup.
       Inr \<lparr>self_base_url = base, self_ticker = t, self_ticker_url = url, self_soup = soup\<rparr>)))"

subsection \<open>\<open>_profile_container\<close>\<close>

definition profile_container :: "utils \<Rightarrow> node \<Rightarrow> exn + pydict" where
  "profile_container u soup =
     (case find_tag soup ''div'' [(''class'', Str ''profile-container'')] of
        None \<Rightarrow> Inl AttributeError
      | Some pc \<Rightarrow>
          and_then
            (map_exn (\<lambda>row. handle_spans u (find_all row ''span'' []))
               (find_all pc ''div'' [(''class'', Str ''row'')]))
            (\<lambda>records. Inr (map_of (rev (List.map_filter id records)))))"

subsection \<open>\<open>_trading_data\<close>\<close>

definition trading_item :: "node \<Rightarrow> exn + string \<times> string" where
  "trading_item li =
     (case select_one li 1 of
        None \<Rightarrow> Inl AttributeError
      | Some k \<Rightarrow>
          (case select_one li 2 of
             None \<Rightarrow> Inl AttributeError
           | Some v \<Rightarrow> Inr (strip (get_text k), strip (get_text v))))"

definition trading_data :: "node \<Rightarrow> exn + pydict" where
  "trading_data soup =
     (case find_tag soup ''div'' [(''class'', Str ''data-trading bar-charts-table'')] of
        None \<Rightarrow> Inl AttributeError
      | Some d \<Rightarrow>
          and_then (map_exn trading_item (find_all d ''li'' [])) (\<lambda>items.
            let trading_dict = map_of (rev items) in
            Inr (\<lambda>k. case trading_dict k of
                        None \<Rightarrow> None
                      | Some v \<Rightarrow> if v \<noteq> [] then Some (VStr v) else None)))"

subsection \<open>\<open>_asset_categories\<close> and \<open>_factset_classification\<close>\<close>

definition asset_categories :: "utils \<Rightarrow> node \<Rightarrow> exn + pydict" where
  "asset_categories u soup =
     (case find_tag soup ''div'' [(''id'', Str ''etf-ticker-body'')] of
        None \<Rightarrow> Inl AttributeError
      | Some body \<Rightarrow>
          (let theme = find_all body ''div'' [(''class'', Str ''ticker-assets'')] in
           if theme = [] \<or> length theme < 1 then Inr Map.empty
           else and_then (nth_item theme 1) (\<lambda>second.
                  handle_find_all_rows u (find_all second ''div'' [(''class'', Str ''row'')]))))"

definition factset_classification :: "utils \<Rightarrow> node \<Rightarrow> exn + pydict" where
  "factset_classification u soup =
     (case find_tag soup ''div'' [(''id'', Str ''factset-classification'')] of
        None \<Rightarrow> Inl AttributeError
      | Some factset \<Rightarrow> handle_find_all_rows u (find_all factset ''tr'' []))"

subsection \<open>\<open>_number_of_holdings\<close>\<close>

definition number_of_holdings :: "utils \<Rightarrow> node \<Rightarrow> exn + pydict" where
  "number_of_holdings u soup = handle_tbody_thead u soup ''holdings-table'' None"

subsection \<open>\<open>_valuation\<close>\<close>

text \<open>
  The \<open>for\<close> loop over \<open>zip(names, chunkify(values, 2))\<close>: a chunk that is not a pair fails
  to unpack into \<open>(k, v)\<close>; \<open>results\<close> is the \<open>defaultdict(dict)\<close>.
\<close>

fun valuation_loop ::
  "(string \<times> string list) list \<Rightarrow> (string \<Rightarrow> (string \<Rightarrow> string option) option)
     \<Rightarrow> exn + (string \<Rightarrow> (string \<Rightarrow> string option) option)" where
  "valuation_loop [] results = Inr results"
| "valuation_loop ((name, chunk) # rest) results =
     (case chunk of
        [k, v] \<Rightarrow>
          valuation_loop rest
            (results(k \<mapsto> (case results k of None \<Rightarrow> Map.empty | Some d \<Rightarrow> d)(name \<mapsto> v)))
      | _ \<Rightarrow> Inl ValueError)"

definition valuation :: "utils \<Rightarrow> node \<Rightarrow> exn + pydict" where
  "valuation u soup =
     (case find_tag soup ''div'' [(''id'', Str ''etf-ticker-valuation-dividend_tab'')] of
        None \<Rightarrow> Inl AttributeError
      | Some tab \<Rightarrow>
          (case find_tag tab ''div'' [(''id'', Str ''valuation'')] of
             None \<Rightarrow> Inl AttributeError
           | Some val \<Rightarrow>
               (let rows = find_all val ''div'' [(''class'', Str ''row'')] in
                and_then
                  (nth_item
                     (map (\<lambda>d. map (\<lambda>i. strip (get_text i))
                                  (find_all d ''div'' [(''class'', Contains ''h4 cente'')])) rows) 1)
                  (\<lambda>names.
                and_then (nth_item rows 1) (\<lambda>second.
                  let vals = map get_text (find_all second ''div'' [(''class'', Str ''text-center'')]) in
                  and_then (valuation_loop (zip names (chunkify u vals 2)) Map.empty) (\<lambda>results.
                    Inr (\<lambda>k. map_option (\<lambda>d. VDict (\<lambda>n. map_option VStr (d n))) (results k))))))))"

subsection \<open>\<open>_holdings\<close>\<close>

text \<open>One pass of the loop over the rows of the table body: the entry appended to \<open>results\<close>.\<close>

definition holding_entry :: "string \<Rightarrow> node \<Rightarrow> exn + (string \<Rightarrow> string option)" where
  "holding_entry base record =
     (let record_texts = find_all record ''td'' [] in
      and_then
        (case find_tag record ''a'' [] of
           None \<Rightarrow> Inr []
         | Some a \<Rightarrow>
             (case map_of (tag_attrs a) ''href'' of
                None \<Rightarrow> Inl KeyError
              | Some href \<Rightarrow> Inr (base @ href)))
        (\<lambda>holding_url.
           Inr ((map_of (zip [''Symbol'', ''Holding'', ''Share''] (map get_text record_texts)))
                  (''Url'' \<mapsto> holding_url))))"

text \<open>The outer \<open>try\<close> with its \<open>except AttributeError\<close>: the list \<open>results\<close>.\<close>

definition holdings_list :: "string \<Rightarrow> node \<Rightarrow> exn + (string \<Rightarrow> string option) list" where
  "holdings_list base soup =
     (case (case find_tag soup ''div'' [(''id'', Str ''holding_section'')] of
              None \<Rightarrow> Inl AttributeError
            | Some holding_section \<Rightarrow>
                (case find_tag holding_section ''tbody'' [] of
                   None \<Rightarrow> Inl AttributeError
                 | Some tbody \<Rightarrow> map_exn (holding_entry base) (find_all tbody ''tr'' []))) of
        Inr results \<Rightarrow> Inr results
      | Inl e \<Rightarrow> if e = AttributeError then Inr [] else Inl e)"

record holdings_data =
  Statistics :: pydict
  Allocation :: pydict
  Holdings :: "(string \<Rightarrow> string option) list"

definition holdings :: "utils \<Rightarrow> string \<Rightarrow> node \<Rightarrow> exn + holdings_data" where
  "holdings u base soup =
     and_then (holdings_list base soup) (\<lambda>results.
     and_then (number_of_holdings u soup) (\<lambda>statistics.
     and_then (asset_categories u soup) (\<lambda>allocation.
       Inr \<lparr>Statistics = statistics, Allocation = allocation, Holdings = results\<rparr>)))"

subsection \<open>\<open>_basic_info\<close>\<close>

text \<open>
  The value one row of the ticker body contributes: the \<open>try\<close> with its
  \<open>except (KeyError, TypeError)\<close>. A missing second child is an \<open>AttributeError\<close>, which the
  clause does not catch.
\<close>

definition row_value_text :: "string \<Rightarrow> string \<Rightarrow> node \<Rightarrow> string" where
  "row_value_text base key val =
     (case find_tag val ''a'' [] of
        None \<Rightarrow> strip (get_text val)
      | Some a \<Rightarrow>
          (case map_of (tag_attrs a) ''href'' of
             None \<Rightarrow> strip (get_text val)
           | Some href \<Rightarrow>
               if href \<noteq> [] \<and> key \<noteq> ''ETF Home Page'' then base @ href else href))"

text \<open>
  One pass of the loop: the pair that \<open>update\<close> stores. The statement
  \<open>value_text.replace(self._base_url, "")\<close>, when its \<open>if\<close> lets it run, computes
  \<open>rewritten\<close> and drops it.
\<close>

definition basic_info_row :: "utils \<Rightarrow> string \<Rightarrow> node \<Rightarrow> exn + string \<times> string" where
  "basic_info_row u base row =
     and_then (handle_nth_child u row 1) (\<lambda>key.
       case select_one row 2 of
         None \<Rightarrow> Inl AttributeError
       | Some val \<Rightarrow>
           (let value_text = row_value_text base key val;
                rewritten = (if key = ''ETF Home Page'' \<and> prefix base value_text
                             then Some (replace value_text base []) else None)
            in Inr (key, value_text)))"

fun basic_info_loop :: "utils \<Rightarrow> string \<Rightarrow> node list \<Rightarrow> pydict \<Rightarrow> exn + pydict" where
  "basic_info_loop u base [] basic_information = Inr basic_information"
| "basic_info_loop u base (row # rows) basic_information =
     and_then (basic_info_row u base row) (\<lambda>(key, value_text).
       basic_info_loop u base rows (basic_information(key \<mapsto> VStr value_text)))"

text \<open>The dict after the loop: \<open>Symbol\<close>, \<open>Url\<close> and the rows of the ticker body.\<close>

definition ticker_body_basics :: "utils \<Rightarrow> etfdb_client \<Rightarrow> exn + pydict" where
  "ticker_body_basics u self =
     (case find_tag (self_soup self) ''div'' [(''id'', Str ''etf-ticker-body'')] of
        None \<Rightarrow> Inl AttributeError
      | Some body \<Rightarrow>
          (case find_tag body ''div'' [(''class'', Str ''row'')] of
             None \<Rightarrow> Inl AttributeError
           | Some etf_ticker_body \<Rightarrow>
               basic_info_loop u (self_base_url self)
                 (find_all etf_ticker_body ''div'' [(''class'', Str ''row'')])
                 [''Symbol'' \<mapsto> VStr (self_ticker self), ''Url'' \<mapsto> VStr (self_ticker_url self)]))"

text \<open>The five \<open>update\<close> calls, in the order of the code.\<close>

definition merge_sections :: "pydict \<Rightarrow> pydict \<Rightarrow> pydict \<Rightarrow> pydict \<Rightarrow> pydict \<Rightarrow> pydict \<Rightarrow> pydict" where
  "merge_sections basics profile val trading assets factset =
     basics ++ profile ++ val ++ trading ++ assets ++ factset"

definition pop_analyst_report :: "pydict \<Rightarrow> pydict" where
  "pop_analyst_report basic_information =
     (if basic_information ''Analyst Report'' \<noteq> None
      then basic_information(''Analyst Report'' := None) else basic_information)"

definition basic_info :: "utils \<Rightarrow> etfdb_client \<Rightarrow> exn + pydict" where
  "basic_info u self =
     and_then (ticker_body_basics u self) (\<lambda>basics.
     and_then (profile_container u (self_soup self)) (\<lambda>profile.
     and_then (valuation u (self_soup self)) (\<lambda>val.
     and_then (trading_data (self_soup self)) (\<lambda>trading.
     and_then (asset_categories u (self_soup self)) (\<lambda>assets.
     and_then (factset_classification u (self_soup self)) (\<lambda>factset.
       Inr (pop_analyst_report (merge_sections basics profile val trading assets factset))))))))"

section \<open>Example documents and collaborators\<close>

text \<open>
  A stand-in for \<open>pyetf.utils\<close> that reads labels and values off the first two children of
  a row, and small documents with and without the regions the extractors look for.
\<close>

fun chunks_of_two :: "string list \<Rightarrow> string list list" where
  "chunks_of_two (a # b # rest) = [a, b] # chunks_of_two rest"
| "chunks_of_two [a] = [[a]]"
| "chunks_of_two [] = []"

definition example_utils :: utils where
  "example_utils =
     \<lparr>handle_spans =
        (\<lambda>spans. case spans of
           [k, v] \<Rightarrow> Inr (Some (strip (get_text k), VStr (strip (get_text v))))
         | _ \<Rightarrow> Inr None),
      handle_find_all_rows =
        (\<lambda>rows. Inr (map_of (List.map_filter
           (\<lambda>r. case select_one r 1 of
                   None \<Rightarrow> None
                 | Some k \<Rightarrow> (case select_one r 2 of
                     None \<Rightarrow> None
                   | Some v \<Rightarrow> Some (strip (get_text k), VStr (strip (get_text v))))) rows))),
      chunkify = (\<lambda>xs n. chunks_of_two xs),
      handle_tbody_thead = (\<lambda>soup ident tag. Inr Map.empty),
      handle_nth_child =
        (\<lambda>row k. case select_one row k of
           None \<Rightarrow> Inl AttributeError
         | Some t \<Rightarrow> Inr (strip (get_text t)))\<rparr>"

definition text_tag :: "string \<Rightarrow> string \<Rightarrow> node" where
  "text_tag name s = Tag name [] [] [NavigableString s]"

definition example_home_row :: node where
  "example_home_row =
     Tag ''div'' [''row''] []
       [text_tag ''span'' ''ETF Home Page'',
        Tag ''span'' [] []
          [Tag ''a'' [] [(''href'', ''https://etfdb.com/etf/SPY/'')] [NavigableString ''Home'']]]"

definition example_ticker_body :: node where
  "example_ticker_body =
     Tag ''div'' [] [(''id'', ''etf-ticker-body'')]
       [Tag ''div'' [''row''] []
          [example_home_row,
           Tag ''div'' [''row''] []
             [text_tag ''span'' ''Issuer'',
              Tag ''span'' [] [] [Tag ''a'' [] [(''href'', ''/issuer/ssga/'')] [NavigableString ''SSGA'']]]],
        Tag ''div'' [''ticker-assets''] [] [],
        Tag ''div'' [''ticker-assets''] []
          [Tag ''div'' [''row''] [] [text_tag ''span'' ''Category'', text_tag ''span'' ''Large Cap'']]]"

definition example_soup :: node where
  "example_soup =
     Tag ''[document]'' [] []
       [example_ticker_body,
        Tag ''div'' [''profile-container''] []
          [Tag ''div'' [''row''] [] [text_tag ''span'' ''Issuer'', text_tag ''span'' ''State Street''],
           Tag ''div'' [''row''] [] [text_tag ''span'' ''Analyst Report'', text_tag ''span'' ''x'']],
        Tag ''div'' [] [(''id'', ''etf-ticker-valuation-dividend_tab'')]
          [Tag ''div'' [] [(''id'', ''valuation'')]
             [Tag ''div'' [''row''] [] [],
              Tag ''div'' [''row''] []
                [Tag ''div'' [''h4'', ''center''] [] [NavigableString ''P/E Ratio''],
                 Tag ''div'' [''text-center''] [] [NavigableString ''Current''],
                 Tag ''div'' [''text-center''] [] [NavigableString ''17.1'']]]],
        Tag ''div'' [''data-trading'', ''bar-charts-table''] []
          [Tag ''li'' [] [] [text_tag ''span'' ''AUM'', text_tag ''span'' ''$10.0 M''],
           Tag ''li'' [] [] [text_tag ''span'' ''Category'', text_tag ''span'' ''Equity'']],
        Tag ''div'' [] [(''id'', ''factset-classification'')]
          [Tag ''tr'' [] [] [text_tag ''td'' ''Segment'', text_tag ''td'' ''Equity: U.S.'']]]"

definition example_client :: etfdb_client where
  "example_client =
     \<lparr>self_base_url = ''https://etfdb.com'', self_ticker = ''SPY'',
      self_ticker_url = ''https://etfdb.com/etf/SPY'', self_soup = example_soup\<rparr>"

definition example_one_block :: node where
  "example_one_block =
     Tag ''[document]'' [] []
       [Tag ''div'' [] [(''id'', ''etf-ticker-body'')]
          [Tag ''div'' [''row''] [] [], Tag ''div'' [''ticker-assets''] [] []]]"

definition example_no_tbody :: node where
  "example_no_tbody =
     Tag ''[document]'' [] []
       [Tag ''div'' [] [(''id'', ''holding_section'')] [Tag ''table'' [] [] []]]"

definition example_plain_row :: node where
  "example_plain_row =
     Tag ''tr'' [] [] [text_tag ''td'' ''N/A'', text_tag ''td'' ''U.S. Dollar'', text_tag ''td'' ''0.12%'']"

definition example_link_row :: node where
  "example_link_row =
     Tag ''tr'' [] []
       [Tag ''td'' [] [] [Tag ''a'' [] [(''href'', ''/stock/AAPL/'')] [NavigableString ''AAPL'']],
        text_tag ''td'' ''Apple Inc.'', text_tag ''td'' ''7.05%'']"

definition example_holdings_soup :: node where
  "example_holdings_soup =
     Tag ''[document]'' [] []
       [Tag ''div'' [] [(''id'', ''holding_section'')]
          [Tag ''table'' [] [] [Tag ''tbody'' [] [] [example_link_row, example_plain_row]]]]"

definition example_catalog :: json where
  "example_catalog = JArr [JObj [(''symbol'', JStr ''SPY'')], JObj [(''symbol'', JStr ''QQQ'')]]"

definition example_session_get :: "string \<Rightarrow> exn + http_response" where
  "example_session_get url = Inr \<lparr>status_code = 200, reason = ''OK'', parsed_text = example_soup\<rparr>"

definition example_scraper :: "json \<Rightarrow> (nat \<times> nat) scraper" where
  "example_scraper body =
     \<lparr>base_url = ''https://etfdb.com'', prepare_request_body = Pair,
      post_request = (\<lambda>request_body. PostReturns (Some (Response (Inr body))))\<rparr>"

definition failing_scraper :: "post_outcome \<Rightarrow> (nat \<times> nat) scraper" where
  "failing_scraper outcome =
     \<lparr>base_url = ''https://etfdb.com'', prepare_request_body = Pair,
      post_request = (\<lambda>request_body. outcome)\<rparr>"

section \<open>Auxiliary facts\<close>

lemma and_then_Inr [simp]: "and_then (Inr x) f = f x"
  by (simp add: and_then_def)

lemma and_then_Inl [simp]: "and_then (Inl e) f = Inl e"
  by (simp add: and_then_def)

subsection \<open>The extractors on the example document\<close>

lemmas example_defs =
  example_client_def example_soup_def example_ticker_body_def example_home_row_def
  text_tag_def example_utils_def

lemmas dom_defs =
  find_tag_def find_all_def select_one_def strip_def isspace_def nth_item_def

lemma ex_basics:
  "\<exists>d. ticker_body_basics example_utils example_client = Inr d
     \<and> d ''Issuer'' = Some (VStr ''https://etfdb.com/issuer/ssga/'')
     \<and> d ''ETF Home Page'' = Some (VStr ''https://etfdb.com/etf/SPY/'')"
  by (simp add: ticker_body_basics_def example_defs dom_defs basic_info_row_def row_value_text_def)

lemma ex_profile:
  "\<exists>d. profile_container example_utils example_soup = Inr d
     \<and> d ''Issuer'' = Some (VStr ''State Street'')
     \<and> d ''Analyst Report'' = Some (VStr ''x'')"
  by (simp add: profile_container_def example_defs dom_defs List.map_filter_simps)

lemma ex_valuation:
  "\<exists>d. valuation example_utils example_soup = Inr d
     \<and> d ''Issuer'' = None \<and> d ''Category'' = None \<and> d ''Current'' \<noteq> None"
  by (simp add: valuation_def example_defs dom_defs)

lemma ex_trading:
  "\<exists>d. trading_data example_soup = Inr d
     \<and> d ''Issuer'' = None \<and> d ''Category'' = Some (VStr ''Equity'')"
  by (simp add: trading_data_def trading_item_def example_defs dom_defs)

lemma ex_assets:
  "\<exists>d. asset_categories example_utils example_soup = Inr d
     \<and> d ''Issuer'' = None \<and> d ''Category'' = Some (VStr ''Large Cap'')"
  by (simp add: asset_categories_def example_defs dom_defs List.map_filter_simps)

lemma ex_factset:
  "\<exists>d. factset_classification example_utils example_soup = Inr d
     \<and> d ''Issuer'' = None \<and> d ''Category'' = None"
  by (simp add: factset_classification_def example_defs dom_defs List.map_filter_simps)

lemma ex_basic_info: "\<exists>prof. basic_info example_utils example_client = Inr prof"
proof -
  have s: "self_soup example_client = example_soup" by (simp add: example_client_def)
  from ex_basics ex_profile ex_valuation ex_trading ex_assets ex_factset
  show ?thesis unfolding basic_info_def s by auto
qed

subsection \<open>Sequencing, loops and the merge\<close>

lemma and_then_eq_Inr: "and_then m f = Inr y \<longleftrightarrow> (\<exists>x. m = Inr x \<and> f x = Inr y)"
  by (cases m) auto

lemma map_exn_Inr_nth:
  "map_exn f xs = Inr ys \<Longrightarrow> length ys = length xs \<and> (\<forall>i < length xs. f (xs ! i) = Inr (ys ! i))"
proof (induction xs arbitrary: ys)
  case Nil
  then show ?case by simp
next
  case (Cons x xs)
  from Cons.prems obtain y ys'
    where y: "f x = Inr y" and r: "map_exn f xs = Inr ys'" and e: "ys = y # ys'"
    by (auto simp: and_then_eq_Inr)
  from Cons.IH [OF r]
  have l: "length ys' = length xs" and n: "\<forall>i < length xs. f (xs ! i) = Inr (ys' ! i)"
    by auto
  show ?case using y l n e by (auto simp: nth_Cons split: nat.splits)
qed

lemma basic_info_loop_keeps:
  "basic_info_loop u base rows d = Inr d' \<Longrightarrow> d k \<noteq> None \<Longrightarrow> d' k \<noteq> None"
proof (induction rows arbitrary: d)
  case Nil
  then show ?case by simp
next
  case (Cons row rows)
  from Cons.prems(1) obtain key v where
    "basic_info_loop u base rows (d(key \<mapsto> VStr v)) = Inr d'"
    by (auto simp: and_then_eq_Inr)
  moreover have "(d(key \<mapsto> VStr v)) k \<noteq> None" using Cons.prems(2) by simp
  ultimately show ?case by (rule Cons.IH)
qed

lemma ticker_body_basics_keys:
  assumes "ticker_body_basics u self = Inr d"
  shows "d ''Symbol'' \<noteq> None \<and> d ''Url'' \<noteq> None"
  using assms unfolding ticker_body_basics_def
  by (auto split: option.splits
      dest: basic_info_loop_keeps [where k = "''Symbol''"] basic_info_loop_keeps [where k = "''Url''"])

lemma merge_sections_keeps:
  "d0 k \<noteq> None \<Longrightarrow> merge_sections d0 d1 d2 d3 d4 d5 k \<noteq> None"
  by (auto simp: merge_sections_def map_add_def split: option.splits)

lemma merge_sections_latest:
  "merge_sections d0 d1 d2 d3 d4 d5 k =
     (case d5 k of Some v \<Rightarrow> Some v | None \<Rightarrow>
      (case d4 k of Some v \<Rightarrow> Some v | None \<Rightarrow>
       (case d3 k of Some v \<Rightarrow> Some v | None \<Rightarrow>
        (case d2 k of Some v \<Rightarrow> Some v | None \<Rightarrow>
         (case d1 k of Some v \<Rightarrow> Some v | None \<Rightarrow> d0 k)))))"
  by (simp add: merge_sections_def map_add_def split: option.splits)

lemma pop_analyst_report_other:
  "k \<noteq> ''Analyst Report'' \<Longrightarrow> pop_analyst_report d k = d k"
  by (simp add: pop_analyst_report_def)

lemma pop_analyst_report_gone: "pop_analyst_report d ''Analyst Report'' = None"
  by (simp add: pop_analyst_report_def)

section \<open>The catalog scraper: properties\<close>

lemma parse_etf_record_no_url:
  assumes "map_of kvs ''symbol'' = None
           \<or> (\<exists>skvs. map_of kvs ''symbol'' = Some (JObj skvs) \<and> map_of skvs ''url'' = None)"
    and "map_of kvs ''name'' = None \<or> (\<exists>nkvs. map_of kvs ''name'' = Some (JObj nkvs))"
  shows "parse_etf_record base (JObj kvs) = Inl TypeError"
  using assms by (auto simp: parse_etf_record_def)

lemma parse_etf_record_with_url:
  assumes "map_of kvs ''symbol'' = Some (JObj skvs)" and "map_of skvs ''url'' = Some (JStr u)"
    and "map_of kvs ''name'' = None \<or> (\<exists>nkvs. map_of kvs ''name'' = Some (JObj nkvs))"
  shows "\<exists>r. parse_etf_record base (JObj kvs) = Inr r
           \<and> map_of r ''url'' = Some (JStr (base @ u))
           \<and> (map_of skvs ''text'' = None \<longrightarrow> map_of r ''symbol'' = Some JNull)
           \<and> (map_of kvs ''name'' = None \<longrightarrow> map_of r ''name'' = Some JNull)
           \<and> (map_of kvs ''one_week_return'' = None \<longrightarrow> map_of r ''one_week_return'' = Some JNull)
           \<and> (map_of kvs ''ytd'' = None \<longrightarrow> map_of r ''one_year_return'' = Some JNull)
           \<and> (map_of kvs ''three_ytd'' = None \<longrightarrow> map_of r ''three_year_return'' = Some JNull)
           \<and> (map_of kvs ''five_ytd'' = None \<longrightarrow> map_of r ''five_year_return'' = Some JNull)"
  using assms by (auto simp: parse_etf_record_def)

text \<open>
  C2. A row without \<open>symbol.url\<close> does not normalize: \<open>self._base_url + None\<close> raises
  \<open>TypeError\<close>, where the claim has a record with an absent \<open>url\<close>.
\<close>

theorem parse_etf_record_missing_url:
  "parse_etf_record ''https://etfdb.com''
     (JObj [(''symbol'', JObj [(''text'', JStr ''SPY'')]),
            (''name'', JObj [(''text'', JStr ''SPDR S&P 500'')]),
            (''ytd'', JStr ''11.2%'')])
   = Inl TypeError"
  by (simp add: parse_etf_record_def)

text \<open>
  C5. When \<open>post_request\<close> raises \<open>ConnectionError\<close> or \<open>Timeout\<close>, when the response lacks
  the attribute \<open>json\<close> or its JSON object lacks the key \<open>data\<close> (and whenever the body of the
  \<open>try\<close> raises one of the four caught exceptions), \<open>_scrape_page\<close> returns the empty list;
  for a JSON object with the key \<open>data\<close> it returns the value of \<open>data\<close>.
\<close>

theorem scrape_page_absorbs:
  "(scrape_page_try c (prepare_request_body c p n)
       \<in> {Inl ConnectionError, Inl Timeout, Inl AttributeError, Inl KeyError}
      \<longrightarrow> scrape_page c p n = Inr (JArr []))
   \<and> (post_request c (prepare_request_body c p n)
       \<in> {PostRaises ConnectionError, PostRaises Timeout, PostReturns None}
      \<longrightarrow> scrape_page c p n = Inr (JArr []))
   \<and> (\<forall>kvs. post_request c (prepare_request_body c p n) = PostReturns (Some (Response (Inr (JObj kvs))))
      \<longrightarrow> scrape_page c p n = Inr (case map_of kvs ''data'' of None \<Rightarrow> JArr [] | Some d \<Rightarrow> d))"
  by (auto simp: scrape_page_def scrape_page_try_def Let_def split: option.splits)

theorem scrape_page_absorbs_witness:
  "scrape_page (failing_scraper (PostRaises ConnectionError)) 1 250 = Inr (JArr [])
   \<and> scrape_page (failing_scraper (PostRaises Timeout)) 1 250 = Inr (JArr [])
   \<and> scrape_page (failing_scraper (PostReturns None)) 1 250 = Inr (JArr [])
   \<and> scrape_page (example_scraper (JObj [(''total'', JNum 0)])) 1 250 = Inr (JArr [])
   \<and> scrape_page (example_scraper (JObj [(''data'', JArr [JObj [(''ytd'', JStr ''11.2%'')]])])) 1 250
       = Inr (JArr [JObj [(''ytd'', JStr ''11.2%'')]])"
  using scrape_page_absorbs [of "failing_scraper (PostRaises ConnectionError)" 1 250]
    scrape_page_absorbs [of "failing_scraper (PostRaises Timeout)" 1 250]
    scrape_page_absorbs [of "failing_scraper (PostReturns None)" 1 250]
    scrape_page_absorbs [of "example_scraper (JObj [(''total'', JNum 0)])" 1 250]
    scrape_page_absorbs [of "example_scraper (JObj [(''data'', JArr [JObj [(''ytd'', JStr ''11.2%'')]])])" 1 250]
  by (simp add: failing_scraper_def example_scraper_def)

text \<open>Any other exception of the \<open>try\<close> body leaves \<open>_scrape_page\<close> as it is.\<close>

lemma scrape_page_propagates:
  assumes "scrape_page_try c (prepare_request_body c p n) = Inl e"
    and "e \<notin> {ConnectionError, Timeout, AttributeError, KeyError}"
  shows "scrape_page c p n = Inl e"
  using assms by (simp add: scrape_page_def)

text \<open>
  The driver on pages whose rows normalize: the first request is for page 1; an empty page
  ends the generator, which then answers every \<open>next\<close> with \<open>StopIteration\<close> and sends no
  request; a page that is not empty is yielded normalized, and the request after it is for
  the following page.
\<close>

lemma get_etfs_first_request:
  "gen_requests (snd (get_etfs_next c n get_etfs)) = [1]"
  by (simp add: get_etfs_next_def get_etfs_def get_etfs_body_def Let_def split: sum.splits)

lemma get_etfs_finished_stays:
  "gen_pc s = Finished \<Longrightarrow> get_etfs_run c n k s = (replicate k StopIteration, s)"
  by (induction k) (simp_all add: get_etfs_next_def)

lemma get_etfs_empty_page:
  assumes "gen_pc s \<noteq> Finished"
    and "scrape_page c (if gen_pc s = NotStarted then 1 else gen_page s + 1) n = Inr etfs"
    and "\<not> truthy etfs"
  shows "\<exists>s'. get_etfs_next c n s = (StopIteration, s') \<and> gen_pc s' = Finished
           \<and> gen_requests s' = gen_requests s @ [if gen_pc s = NotStarted then 1 else gen_page s + 1]
           \<and> (\<forall>k. get_etfs_run c n k s' = (replicate k StopIteration, s'))"
  using assms
  by (cases "gen_pc s") (simp_all add: get_etfs_next_def get_etfs_body_def get_etfs_finished_stays)

lemma get_etfs_full_page:
  assumes "gen_pc s \<noteq> Finished"
    and "scrape_page c (if gen_pc s = NotStarted then 1 else gen_page s + 1) n = Inr etfs"
    and "truthy etfs"
    and "prepare_etfs_list (base_url c) etfs = Inr recs"
  shows "\<exists>s'. get_etfs_next c n s = (Yield recs, s') \<and> gen_pc s' = AtYield
           \<and> gen_page s' = (if gen_pc s = NotStarted then 1 else gen_page s + 1)
           \<and> gen_requests s' = gen_requests s @ [gen_page s']
           \<and> gen_requests (snd (get_etfs_next c n s')) = gen_requests s' @ [gen_page s' + 1]"
  using assms
  by (cases "gen_pc s")
     (simp_all add: get_etfs_next_def get_etfs_body_def Let_def split: sum.splits)

text \<open>
  C3. A page that is not empty but holds a row without \<open>symbol.url\<close> is not produced: the
  first \<open>next\<close> raises the \<open>TypeError\<close> of \<open>_parse_etf_record\<close> and the generator is finished.
\<close>

theorem get_etfs_raises_on_row_without_url:
  "get_etfs_next (example_scraper (JObj [(''data'', JArr [JObj [(''ytd'', JStr ''11.2%'')]])])) 250 get_etfs
   = (Raise TypeError, \<lparr>gen_pc = Finished, gen_page = 1, gen_requests = [1]\<rparr>)"
  by (simp add: get_etfs_next_def get_etfs_def get_etfs_body_def scrape_page_def
      scrape_page_try_def example_scraper_def prepare_etfs_list_def parse_etf_record_def)

section \<open>The per-ticker client: properties\<close>

text \<open>
  C7. A profile that \<open>_basic_info\<close> returns has the keys \<open>Symbol\<close> and \<open>Url\<close> and does not
  have the key \<open>Analyst Report\<close>, whatever the rows and the five sections stored.
\<close>

theorem basic_info_keys:
  assumes "basic_info u self = Inr prof"
  shows "prof ''Symbol'' \<noteq> None \<and> prof ''Url'' \<noteq> None \<and> prof ''Analyst Report'' = None"
proof -
  from assms obtain d0 d1 d2 d3 d4 d5 where
    b: "ticker_body_basics u self = Inr d0" and
    p: "prof = pop_analyst_report (merge_sections d0 d1 d2 d3 d4 d5)"
    unfolding basic_info_def by (auto simp: and_then_eq_Inr)
  from ticker_body_basics_keys[OF b] have "d0 ''Symbol'' \<noteq> None" "d0 ''Url'' \<noteq> None"
    by simp_all
  then have "merge_sections d0 d1 d2 d3 d4 d5 ''Symbol'' \<noteq> None"
    "merge_sections d0 d1 d2 d3 d4 d5 ''Url'' \<noteq> None"
    by (simp_all add: merge_sections_keeps)
  then show ?thesis
    unfolding p by (simp add: pop_analyst_report_other pop_analyst_report_gone)
qed

theorem basic_info_keys_witness:
  "(\<exists>profile. profile_container example_utils example_soup = Inr profile
      \<and> profile ''Analyst Report'' = Some (VStr ''x''))
   \<and> (\<exists>prof. basic_info example_utils example_client = Inr prof
      \<and> prof ''Symbol'' \<noteq> None \<and> prof ''Url'' \<noteq> None \<and> prof ''Analyst Report'' = None)"
proof -
  from ex_basic_info obtain prof where p: "basic_info example_utils example_client = Inr prof" ..
  from basic_info_keys [OF p] p ex_profile show ?thesis by auto
qed

text \<open>
  C1. When the six sections are there, the merged dict gives every key the value of the last
  section, in the order ticker body, profile container, valuation, trading data, asset
  categories, classification, that has the key; the profile \<open>_basic_info\<close> returns agrees
  with the merged dict on every key but \<open>Analyst Report\<close>, which it drops afterwards.
\<close>

theorem merge_precedence:
  assumes "ticker_body_basics u self = Inr basics"
    and "profile_container u (self_soup self) = Inr profile"
    and "valuation u (self_soup self) = Inr val"
    and "trading_data (self_soup self) = Inr trading"
    and "asset_categories u (self_soup self) = Inr assets"
    and "factset_classification u (self_soup self) = Inr factset"
  shows "(\<forall>k. merge_sections basics profile val trading assets factset k =
            (case factset k of Some v \<Rightarrow> Some v | None \<Rightarrow>
             (case assets k of Some v \<Rightarrow> Some v | None \<Rightarrow>
              (case trading k of Some v \<Rightarrow> Some v | None \<Rightarrow>
               (case val k of Some v \<Rightarrow> Some v | None \<Rightarrow>
                (case profile k of Some v \<Rightarrow> Some v | None \<Rightarrow> basics k))))))
       \<and> (\<exists>prof. basic_info u self = Inr prof
            \<and> (\<forall>k. k \<noteq> ''Analyst Report'' \<longrightarrow>
                  prof k = merge_sections basics profile val trading assets factset k))"
  using assms by (simp add: basic_info_def merge_sections_latest pop_analyst_report_other)

theorem merge_precedence_witness:
  "\<exists>basics profile trading assets prof.
     ticker_body_basics example_utils example_client = Inr basics
     \<and> basics ''Issuer'' = Some (VStr ''https://etfdb.com/issuer/ssga/'')
     \<and> profile_container example_utils example_soup = Inr profile
     \<and> profile ''Issuer'' = Some (VStr ''State Street'')
     \<and> trading_data example_soup = Inr trading
     \<and> trading ''Category'' = Some (VStr ''Equity'')
     \<and> asset_categories example_utils example_soup = Inr assets
     \<and> assets ''Category'' = Some (VStr ''Large Cap'')
     \<and> basic_info example_utils example_client = Inr prof
     \<and> prof ''Issuer'' = Some (VStr ''State Street'')
     \<and> prof ''Category'' = Some (VStr ''Large Cap'')"
proof -
  have s: "self_soup example_client = example_soup"
    by (simp add: example_client_def)
  from ex_basics obtain d0
    where d0: "ticker_body_basics example_utils example_client = Inr d0"
      and d0i: "d0 ''Issuer'' = Some (VStr ''https://etfdb.com/issuer/ssga/'')"
    by blast
  from ex_profile obtain d1
    where d1: "profile_container example_utils example_soup = Inr d1"
      and d1i: "d1 ''Issuer'' = Some (VStr ''State Street'')"
    by blast
  from ex_valuation obtain d2
    where d2: "valuation example_utils example_soup = Inr d2"
      and d2i: "d2 ''Issuer'' = None" "d2 ''Category'' = None"
    by blast
  from ex_trading obtain d3
    where d3: "trading_data example_soup = Inr d3"
      and d3i: "d3 ''Issuer'' = None" "d3 ''Category'' = Some (VStr ''Equity'')"
    by blast
  from ex_assets obtain d4
    where d4: "asset_categories example_utils example_soup = Inr d4"
      and d4i: "d4 ''Issuer'' = None" "d4 ''Category'' = Some (VStr ''Large Cap'')"
    by blast
  from ex_factset obtain d5
    where d5: "factset_classification example_utils example_soup = Inr d5"
      and d5i: "d5 ''Issuer'' = None" "d5 ''Category'' = None"
    by blast
  from merge_precedence [of example_utils example_client, unfolded s, OF d0 d1 d2 d3 d4 d5]
  obtain prof where p: "basic_info example_utils example_client = Inr prof"
    and i: "prof ''Issuer'' = Some (VStr ''State Street'')"
    and c: "prof ''Category'' = Some (VStr ''Large Cap'')"
    using d1i d2i d3i d4i d5i by auto
  from d0 d0i d1 d1i d3 d3i(2) d4 d4i(2) p i c show ?thesis by blast
qed

lemma ex_available:
  "get_available_etfs_list example_catalog = Inr [JStr ''SPY'', JStr ''QQQ'']"
  by (simp add: get_available_etfs_list_def example_catalog_def)

text \<open>
  C4. With the catalog loaded: a ticker whose upper-case form is not a catalog symbol makes
  \<open>__init__\<close> raise \<open>InvalidETFException\<close> with the ticker, as given, in its message; a
  ticker whose upper-case form is a catalog symbol resolves to that form and to the URL
  \<open>{base}/etf/{TICKER}\<close>, which the client keeps once the document is fetched. So an
  upper-case catalog symbol is resolved from any spelling of it in upper and lower case.
\<close>

theorem ticker_resolution:
  assumes "get_available_etfs_list data = Inr available"
  shows "(JStr (upper ticker) \<notin> set available \<longrightarrow>
            resolve_ticker base available ticker
              = Inl (InvalidETFException (ticker @ '' doesn't exist in ETF Database''))
            \<and> init base data session_get ticker
              = Inl (InvalidETFException (ticker @ '' doesn't exist in ETF Database'')))
       \<and> (JStr (upper ticker) \<in> set available \<longrightarrow>
            resolve_ticker base available ticker
              = Inr (upper ticker, base @ ''/etf/'' @ upper ticker)
            \<and> init base data session_get ticker
              = and_then (make_soup_request session_get base (upper ticker)) (\<lambda>soup.
                  Inr \<lparr>self_base_url = base, self_ticker = upper ticker,
                       self_ticker_url = base @ ''/etf/'' @ upper ticker, self_soup = soup\<rparr>))
       \<and> (\<forall>s. JStr s \<in> set available \<and> upper s = s \<and> upper ticker = s \<longrightarrow>
            resolve_ticker base available ticker = Inr (s, base @ ''/etf/'' @ s))"
  using assms by (auto simp: init_def resolve_ticker_def)

theorem ticker_resolution_witness:
  "init ''https://etfdb.com'' example_catalog example_session_get ''vtix''
     = Inl (InvalidETFException ''vtix doesn't exist in ETF Database'')
   \<and> resolve_ticker ''https://etfdb.com'' [JStr ''SPY'', JStr ''QQQ''] ''Spy''
     = Inr (''SPY'', ''https://etfdb.com/etf/SPY'')
   \<and> init ''https://etfdb.com'' example_catalog example_session_get ''Spy''
     = Inr \<lparr>self_base_url = ''https://etfdb.com'', self_ticker = ''SPY'',
            self_ticker_url = ''https://etfdb.com/etf/SPY'', self_soup = example_soup\<rparr>"
  using ticker_resolution [OF ex_available, of "''vtix''" "''https://etfdb.com''" example_session_get]
    ticker_resolution [OF ex_available, of "''Spy''" "''https://etfdb.com''" example_session_get]
  by (simp add: upper_def make_soup_request_def example_session_get_def)

text \<open>
  C10. With exactly one \<open>ticker-assets\<close> block below the ticker body, the guard
  \<open>not theme or len(theme) < 1\<close> lets the list through and \<open>theme[1]\<close> raises
  \<open>IndexError\<close>; no empty dict is returned.
\<close>

theorem asset_categories_single_block:
  assumes "find_tag soup ''div'' [(''id'', Str ''etf-ticker-body'')] = Some body"
    and "length (find_all body ''div'' [(''class'', Str ''ticker-assets'')]) = 1"
  shows "asset_categories u soup = Inl IndexError"
  using assms by (auto simp: asset_categories_def Let_def nth_item_def)

theorem asset_categories_single_block_witness:
  "find_tag example_one_block ''div'' [(''id'', Str ''etf-ticker-body'')]
     = Some (Tag ''div'' [] [(''id'', ''etf-ticker-body'')]
               [Tag ''div'' [''row''] [] [], Tag ''div'' [''ticker-assets''] [] []])
   \<and> length (find_all (Tag ''div'' [] [(''id'', ''etf-ticker-body'')]
               [Tag ''div'' [''row''] [] [], Tag ''div'' [''ticker-assets''] [] []])
             ''div'' [(''class'', Str ''ticker-assets'')]) = 1
   \<and> asset_categories example_utils example_one_block = Inl IndexError"
proof -
  have b: "find_tag example_one_block ''div'' [(''id'', Str ''etf-ticker-body'')]
     = Some (Tag ''div'' [] [(''id'', ''etf-ticker-body'')]
               [Tag ''div'' [''row''] [] [], Tag ''div'' [''ticker-assets''] [] []])"
    by (simp add: example_one_block_def find_tag_def find_all_def)
  have l: "length (find_all (Tag ''div'' [] [(''id'', ''etf-ticker-body'')]
               [Tag ''div'' [''row''] [] [], Tag ''div'' [''ticker-assets''] [] []])
             ''div'' [(''class'', Str ''ticker-assets'')]) = 1"
    by (simp add: find_all_def)
  from asset_categories_single_block [OF b l, of example_utils] b l show ?thesis by simp
qed

text \<open>
  C6. Without the holdings section, or without a table body in it, the list of holdings is
  empty and building it raises nothing: \<open>_holdings\<close> goes on to the statistics and the
  allocation and, unless one of these two raises, returns them with \<open>Holdings = []\<close>.
\<close>

theorem holdings_list_absent:
  assumes "find_tag soup ''div'' [(''id'', Str ''holding_section'')] = None
           \<or> (\<exists>sec. find_tag soup ''div'' [(''id'', Str ''holding_section'')] = Some sec
                 \<and> find_tag sec ''tbody'' [] = None)"
  shows "holdings_list base soup = Inr []
       \<and> holdings u base soup =
           and_then (number_of_holdings u soup) (\<lambda>statistics.
           and_then (asset_categories u soup) (\<lambda>allocation.
             Inr \<lparr>Statistics = statistics, Allocation = allocation, Holdings = []\<rparr>))"
proof -
  from assms have "holdings_list base soup = Inr []"
    by (auto simp: holdings_list_def)
  then show ?thesis by (simp add: holdings_def)
qed

theorem holdings_list_absent_witness:
  "find_tag example_soup ''div'' [(''id'', Str ''holding_section'')] = None
   \<and> holdings_list ''https://etfdb.com'' example_soup = Inr []
   \<and> (\<exists>sec. find_tag example_no_tbody ''div'' [(''id'', Str ''holding_section'')] = Some sec
         \<and> find_tag sec ''tbody'' [] = None)
   \<and> holdings_list ''https://etfdb.com'' example_no_tbody = Inr []"
proof -
  have a: "find_tag example_soup ''div'' [(''id'', Str ''holding_section'')] = None"
    by (simp add: example_defs find_tag_def find_all_def)
  have b: "\<exists>sec. find_tag example_no_tbody ''div'' [(''id'', Str ''holding_section'')] = Some sec
         \<and> find_tag sec ''tbody'' [] = None"
    by (simp add: example_no_tbody_def find_tag_def find_all_def)
  from holdings_list_absent [of example_soup "''https://etfdb.com''" example_utils] a
    holdings_list_absent [of example_no_tbody "''https://etfdb.com''" example_utils] b
  show ?thesis by simp
qed

lemma length_replace_le: "length (replace s old []) \<le> length s"
  by (induction s old "[]::string" rule: replace.induct)
     (auto simp: le_SucI intro: le_trans[OF _ diff_le_self])

lemma replace_prefix_shorter:
  assumes "prefix old s" and "old \<noteq> []"
  shows "length (replace s old []) < length s"
proof (cases s)
  case Nil
  with assms show ?thesis by simp
next
  case (Cons c cs)
  with assms have "replace s old [] = replace (drop (length old) s) old []"
    by simp
  moreover have "length (replace (drop (length old) s) old []) \<le> length (drop (length old) s)"
    by (rule length_replace_le)
  moreover have "length (drop (length old) s) < length s"
    using assms Cons by (cases old) auto
  ultimately show ?thesis by simp
qed

text \<open>
  C8. For a row whose key is \<open>ETF Home Page\<close> and whose value begins with the base URL, the
  value stored is the value computed before the rewrite statement: the link target itself
  when the cell has one, with the base URL still in front, and not the rewritten string.
\<close>

theorem home_page_value_unchanged:
  assumes "handle_nth_child u row 1 = Inr ''ETF Home Page''"
    and "select_one row 2 = Some val"
    and "prefix base (row_value_text base ''ETF Home Page'' val)"
  shows "basic_info_row u base row = Inr (''ETF Home Page'', row_value_text base ''ETF Home Page'' val)
       \<and> (\<forall>a href. find_tag val ''a'' [] = Some a \<and> map_of (tag_attrs a) ''href'' = Some href
             \<longrightarrow> row_value_text base ''ETF Home Page'' val = href)
       \<and> (base \<noteq> [] \<longrightarrow>
             row_value_text base ''ETF Home Page'' val
               \<noteq> replace (row_value_text base ''ETF Home Page'' val) base [])
       \<and> (\<forall>rows d. basic_info_loop u base (row # rows) d
             = basic_info_loop u base rows
                 (d(''ETF Home Page'' \<mapsto> VStr (row_value_text base ''ETF Home Page'' val))))"
proof -
  have r: "basic_info_row u base row = Inr (''ETF Home Page'', row_value_text base ''ETF Home Page'' val)"
    using assms(1,2) by (simp add: basic_info_row_def)
  have h: "\<forall>a href. find_tag val ''a'' [] = Some a \<and> map_of (tag_attrs a) ''href'' = Some href
             \<longrightarrow> row_value_text base ''ETF Home Page'' val = href"
    by (simp add: row_value_text_def)
  have n: "base \<noteq> [] \<longrightarrow> row_value_text base ''ETF Home Page'' val
               \<noteq> replace (row_value_text base ''ETF Home Page'' val) base []"
    using replace_prefix_shorter [OF assms(3)] by fastforce
  show ?thesis using r h n by simp
qed

theorem home_page_value_unchanged_witness:
  "handle_nth_child example_utils example_home_row 1 = Inr ''ETF Home Page''
   \<and> prefix ''https://etfdb.com'' ''https://etfdb.com/etf/SPY/''
   \<and> basic_info_row example_utils ''https://etfdb.com'' example_home_row
       = Inr (''ETF Home Page'', ''https://etfdb.com/etf/SPY/'')
   \<and> replace ''https://etfdb.com/etf/SPY/'' ''https://etfdb.com'' [] = ''/etf/SPY/''"
proof -
  let ?val = "Tag ''span'' [] []
          [Tag ''a'' [] [(''href'', ''https://etfdb.com/etf/SPY/'')] [NavigableString ''Home'']]"
  have k: "handle_nth_child example_utils example_home_row 1 = Inr ''ETF Home Page''"
    by (simp add: example_defs dom_defs)
  have v: "select_one example_home_row 2 = Some ?val"
    by (simp add: example_defs dom_defs)
  have t: "row_value_text ''https://etfdb.com'' ''ETF Home Page'' ?val = ''https://etfdb.com/etf/SPY/''"
    by (simp add: row_value_text_def dom_defs)
  have p: "prefix ''https://etfdb.com'' (row_value_text ''https://etfdb.com'' ''ETF Home Page'' ?val)"
    unfolding t by simp
  from home_page_value_unchanged [OF k v p] k t show ?thesis by simp
qed

lemma holding_entry_Url: "holding_entry base record = Inr entry \<Longrightarrow> entry ''Url'' \<noteq> None"
  by (auto simp: holding_entry_def Let_def and_then_eq_Inr)

lemma holding_entry_no_link:
  "find_tag record ''a'' [] = None \<Longrightarrow>
     \<exists>entry. holding_entry base record = Inr entry \<and> entry ''Url'' = Some []"
  by (simp add: holding_entry_def Let_def)

lemma map_exn_Inl: "map_exn f xs = Inl e \<Longrightarrow> \<exists>x \<in> set xs. f x = Inl e"
proof (induction xs)
  case Nil
  then show ?case by simp
next
  case (Cons x xs)
  then show ?case
    by (cases "f x"; cases "map_exn f xs") auto
qed

lemma holding_entry_Inl: "holding_entry base record = Inl e \<Longrightarrow> e = KeyError"
  by (auto simp: holding_entry_def Let_def split: option.splits)

lemma holdings_list_rows:
  assumes "find_tag soup ''div'' [(''id'', Str ''holding_section'')] = Some sec"
    and "find_tag sec ''tbody'' [] = Some tbody"
    and "holdings_list base soup = Inr entries"
  shows "map_exn (holding_entry base) (find_all tbody ''tr'' []) = Inr entries"
proof (cases "map_exn (holding_entry base) (find_all tbody ''tr'' [])")
  case (Inl e)
  from map_exn_Inl [OF Inl] holding_entry_Inl have "e = KeyError" by blast
  with Inl assms show ?thesis by (simp add: holdings_list_def)
next
  case (Inr rs)
  with assms show ?thesis by (simp add: holdings_list_def)
qed

text \<open>
  C9. A row without a link gives an entry whose \<open>Url\<close> is the empty string; every entry
  that a row gives, and so every entry of the holdings list, has a \<open>Url\<close>, which is a
  string.
\<close>

theorem holding_entry_url:
  "(find_tag record ''a'' [] = None \<longrightarrow>
      (\<exists>entry. holding_entry base record = Inr entry \<and> entry ''Url'' = Some []))
   \<and> (\<forall>entry. holding_entry base record = Inr entry \<longrightarrow> (\<exists>url. entry ''Url'' = Some url))
   \<and> (\<forall>sec tbody entries.
        find_tag soup ''div'' [(''id'', Str ''holding_section'')] = Some sec
        \<and> find_tag sec ''tbody'' [] = Some tbody
        \<and> holdings_list base soup = Inr entries
        \<longrightarrow> length entries = length (find_all tbody ''tr'' [])
            \<and> (\<forall>i < length entries.
                  (\<exists>url. (entries ! i) ''Url'' = Some url)
                  \<and> (find_tag (find_all tbody ''tr'' [] ! i) ''a'' [] = None
                       \<longrightarrow> (entries ! i) ''Url'' = Some [])))"
proof (intro conjI allI impI)
  assume "find_tag record ''a'' [] = None"
  then show "\<exists>entry. holding_entry base record = Inr entry \<and> entry ''Url'' = Some []"
    by (rule holding_entry_no_link)
next
  fix entry assume "holding_entry base record = Inr entry"
  then show "\<exists>url. entry ''Url'' = Some url" using holding_entry_Url by fastforce
next
  fix sec tbody entries
  assume a: "find_tag soup ''div'' [(''id'', Str ''holding_section'')] = Some sec
        \<and> find_tag sec ''tbody'' [] = Some tbody
        \<and> holdings_list base soup = Inr entries"
  then have m: "map_exn (holding_entry base) (find_all tbody ''tr'' []) = Inr entries"
    using holdings_list_rows by blast
  from map_exn_Inr_nth [OF m] show "length entries = length (find_all tbody ''tr'' [])"
    by simp
next
  fix sec tbody entries i
  assume a: "find_tag soup ''div'' [(''id'', Str ''holding_section'')] = Some sec
        \<and> find_tag sec ''tbody'' [] = Some tbody
        \<and> holdings_list base soup = Inr entries"
    and i: "i < length entries"
  then have m: "map_exn (holding_entry base) (find_all tbody ''tr'' []) = Inr entries"
    using holdings_list_rows by blast
  from map_exn_Inr_nth [OF m] i
  have e: "holding_entry base (find_all tbody ''tr'' [] ! i) = Inr (entries ! i)" by simp
  show "\<exists>url. (entries ! i) ''Url'' = Some url" using holding_entry_Url [OF e] by fastforce
next
  fix sec tbody entries i
  assume a: "find_tag soup ''div'' [(''id'', Str ''holding_section'')] = Some sec
        \<and> find_tag sec ''tbody'' [] = Some tbody
        \<and> holdings_list base soup = Inr entries"
    and i: "i < length entries"
    and n: "find_tag (find_all tbody ''tr'' [] ! i) ''a'' [] = None"
  then have m: "map_exn (holding_entry base) (find_all tbody ''tr'' []) = Inr entries"
    using holdings_list_rows by blast
  from map_exn_Inr_nth [OF m] i
  have e: "holding_entry base (find_all tbody ''tr'' [] ! i) = Inr (entries ! i)" by simp
  from holding_entry_no_link [OF n, of base] e show "(entries ! i) ''Url'' = Some []" by auto
qed

lemmas holdings_example_defs =
  example_holdings_soup_def example_link_row_def example_plain_row_def text_tag_def

lemma ex_holdings_list:
  "\<exists>e1 e2. holdings_list ''https://etfdb.com'' example_holdings_soup = Inr [e1, e2]
     \<and> e1 ''Url'' = Some ''https://etfdb.com/stock/AAPL/'' \<and> e1 ''Symbol'' = Some ''AAPL''
     \<and> e2 ''Url'' = Some [] \<and> e2 ''Holding'' = Some ''U.S. Dollar''"
  by (simp add: holdings_list_def holding_entry_def holdings_example_defs find_tag_def find_all_def)

theorem holding_entry_url_witness:
  "find_tag example_plain_row ''a'' [] = None
   \<and> (\<exists>entry. holding_entry ''https://etfdb.com'' example_plain_row = Inr entry
         \<and> entry ''Url'' = Some [])
   \<and> (\<exists>entry. holding_entry ''https://etfdb.com'' example_link_row = Inr entry
         \<and> entry ''Url'' = Some ''https://etfdb.com/stock/AAPL/'')
   \<and> (\<exists>entries. holdings_list ''https://etfdb.com'' example_holdings_soup = Inr entries
         \<and> length entries = 2 \<and> (entries ! 1) ''Url'' = Some [])"
proof -
  have n: "find_tag example_plain_row ''a'' [] = None"
    by (simp add: holdings_example_defs find_tag_def find_all_def)
  have l: "\<exists>entry. holding_entry ''https://etfdb.com'' example_link_row = Inr entry
         \<and> entry ''Url'' = Some ''https://etfdb.com/stock/AAPL/''"
    by (simp add: holding_entry_def holdings_example_defs find_tag_def find_all_def)
  from ex_holdings_list obtain e1 e2 where
    h: "holdings_list ''https://etfdb.com'' example_holdings_soup = Inr [e1, e2]" by blast
  have s: "find_tag example_holdings_soup ''div'' [(''id'', Str ''holding_section'')]
      = Some (Tag ''div'' [] [(''id'', ''holding_section'')]
          [Tag ''table'' [] [] [Tag ''tbody'' [] [] [example_link_row, example_plain_row]]])"
    by (simp add: holdings_example_defs find_tag_def find_all_def)
  have b: "find_tag (Tag ''div'' [] [(''id'', ''holding_section'')]
          [Tag ''table'' [] [] [Tag ''tbody'' [] [] [example_link_row, example_plain_row]]]) ''tbody'' []
      = Some (Tag ''tbody'' [] [] [example_link_row, example_plain_row])"
    by (simp add: holdings_example_defs find_tag_def find_all_def)
  have r: "find_all (Tag ''tbody'' [] [] [example_link_row, example_plain_row]) ''tr'' []
      = [example_link_row, example_plain_row]"
    by (simp add: holdings_example_defs find_tag_def find_all_def)
  from holding_entry_url [of example_plain_row "''https://etfdb.com''" example_holdings_soup] n s b h r l
  show ?thesis by (auto simp: nth_Cons)
qed

end
